theory Spec2Isabelle
  imports Complex_Main
begin

section \<open>Data model of \<^verbatim>\<open>app/src/lib/git/checkout.ts\<close>\<close>

text \<open>
  The module imports its domain types from \<^verbatim>\<open>../../models\<close>. Only the fields that
  \<^verbatim>\<open>checkout.ts\<close> reads are kept: \<^verbatim>\<open>branch.name\<close>, \<^verbatim>\<open>branch.type\<close>,
  \<^verbatim>\<open>branch.nameWithoutRemote\<close>, \<^verbatim>\<open>repository.path\<close> and \<^verbatim>\<open>commit.sha\<close>.
  A JavaScript string is a \<open>string\<close>; a JavaScript number that is only stored and
  compared (the progress percentage) is a \<open>real\<close>.
\<close>

datatype BranchType = Local | Remote

record Branch =
  name :: string
  type :: BranchType
  nameWithoutRemote :: string

record Repository =
  path :: string

record CommitOneLine =
  sha :: string
  summary :: string

text \<open>
  \<^verbatim>\<open>ICheckoutProgress\<close>, the object handed to a \<^verbatim>\<open>ProgressCallback\<close>. The field
  \<^verbatim>\<open>value\<close> is written \<open>value'\<close>.
\<close>

record ICheckoutProgress =
  kind :: string
  title :: string
  description :: string
  value' :: real
  target :: string

text \<open>
  Modelled from the spec: the type of the lines the progress parser hands to the event
  handler (declared in \<^verbatim>\<open>../progress\<close>). Section 4.2: a parsed line is either of kind
  "progress", with a percentage and a display text (read by the handler as
  \<^verbatim>\<open>progress.percent\<close> and \<^verbatim>\<open>progress.details.text\<close>), or a raw line with its text.
\<close>

datatype ParsedLine =
    Progress (percent: real) (details_text: string)
  | Raw string

text \<open>The one parser this module instantiates: \<^verbatim>\<open>new CheckoutProgressParser()\<close>.\<close>

datatype GitProgressParser = CheckoutProgressParser

text \<open>
  \<^verbatim>\<open>IGitExecutionOptions\<close>. The object literal of \<^verbatim>\<open>getCheckoutOpts\<close> sets \<^verbatim>\<open>env\<close> and
  \<^verbatim>\<open>expectedErrors\<close>; \<^verbatim>\<open>trackLFSProgress\<close> is an optional field. The last field is where
  the progress adapter keeps the parser and the event handler it was given. A handler
  returns the values it passed to the caller's callback, in order (\<open>'e\<close> is what one
  call of the callback is observed as).
\<close>

record ('env, 'tbl, 'e) IGitExecutionOptions =
  env :: 'env
  expectedErrors :: 'tbl
  trackLFSProgress :: "bool option"
  progressTracking :: "(GitProgressParser \<times> (ParsedLine \<Rightarrow> 'e list)) option"

text \<open>
  What one invocation does to the outside, in program order: a call of the caller's
  progress callback, or a call of the process runner with its four arguments
  (argument list, working directory, operation name, options).
\<close>

datatype ('env, 'tbl, 'e) Effect =
    Callback 'e
  | Spawned "string list" string string "('env, 'tbl, 'e) IGitExecutionOptions option"

text \<open>
  Modelled from the spec: the result types of the process runner \<^verbatim>\<open>git\<close> of
  \<^verbatim>\<open>./core\<close> (section 4.1): exit code and both captured streams, returned on exit code
  0 and carried by the error otherwise.
\<close>

record ExecutionResult =
  exitCode :: int
  stdout :: string
  stderr :: string

datatype ExecutionError = ExecutionError ExecutionResult

text \<open>
  What the spawned git process does: the lines the progress parser produces from its
  output, in the order received, and how it exits.
\<close>

record Process =
  parserOutput :: "ParsedLine list"
  exit :: ExecutionResult

text \<open>
  Everything \<^verbatim>\<open>checkout.ts\<close> imports or reads from its build environment and that is
  not part of the module itself, taken as parameters: \<^verbatim>\<open>gitNetworkArguments()\<close>,
  \<^verbatim>\<open>enableRecurseSubmodulesFlag()\<close>, the table \<^verbatim>\<open>AuthenticationErrors\<close>,
  \<^verbatim>\<open>envForRemoteOperation\<close>, \<^verbatim>\<open>getFallbackUrlForProxyResolve\<close>, \<^verbatim>\<open>shortenSHA\<close>, the
  build constant \<^verbatim>\<open>__DARWIN__\<close>, and the git binary itself (\<open>spawn\<close>: the process
  that an argument list, a working directory and an environment give).
\<close>

record ('acct, 'env, 'tbl) Externals =
  gitNetworkArguments :: "string list"
  enableRecurseSubmodulesFlag :: bool
  AuthenticationErrors :: 'tbl
  envForRemoteOperation :: "'acct option \<Rightarrow> string \<Rightarrow> 'env"
  getFallbackUrlForProxyResolve :: "'acct option \<Rightarrow> Repository \<Rightarrow> string"
  shortenSHA :: "string \<Rightarrow> string"
  DARWIN :: bool
  spawn :: "string list \<Rightarrow> string \<Rightarrow> 'env option \<Rightarrow> Process"

section \<open>The argument builders\<close>

text \<open>
  \<^verbatim>\<open>getCheckoutArgs(progressCallback?)\<close>: the optional callback is an \<open>option\<close>;
  \<^verbatim>\<open>progressCallback != null\<close> is \<open>progressCallback \<noteq> None\<close>.
\<close>

definition getCheckoutArgs ::
  "('acct, 'env, 'tbl) Externals \<Rightarrow> (ICheckoutProgress \<Rightarrow> 'e) option \<Rightarrow> string list" where
  "getCheckoutArgs X progressCallback =
     (if progressCallback \<noteq> None
      then gitNetworkArguments X @ [''checkout'', ''--progress'']
      else gitNetworkArguments X @ [''checkout''])"

text \<open>\<^verbatim>\<open>getBranchCheckoutArgs(branch)\<close>; \<open>baseArgs\<close> is the empty array it starts from.\<close>

definition getBranchCheckoutArgs ::
  "('acct, 'env, 'tbl) Externals \<Rightarrow> Branch \<Rightarrow> string list" where
  "getBranchCheckoutArgs X branch =
     (let baseArgs = [] in
      if enableRecurseSubmodulesFlag X then
        (if type branch = Remote
         then baseArgs @ [name branch, ''-b'', nameWithoutRemote branch,
                          ''--recurse-submodules'', ''--'']
         else baseArgs @ [name branch, ''--recurse-submodules'', ''--''])
      else
        (if type branch = Remote
         then baseArgs @ [name branch, ''-b'', nameWithoutRemote branch, ''--'']
         else baseArgs @ [name branch, ''--'']))"

section \<open>The process runner and the progress adapter\<close>

text \<open>
  Modelled from the spec: \<^verbatim>\<open>executionOptionsWithProgress\<close> of \<^verbatim>\<open>../progress\<close>
  (section 4.3, the progress adapter: it "wraps a base Operation Request with
  progress-tracking enabled", taking the request, the parser and the event handler).
\<close>

definition executionOptionsWithProgress ::
  "('env, 'tbl, 'e) IGitExecutionOptions \<Rightarrow> GitProgressParser \<Rightarrow> (ParsedLine \<Rightarrow> 'e list)
     \<Rightarrow> ('env, 'tbl, 'e) IGitExecutionOptions" where
  "executionOptionsWithProgress options parser progressCallback =
     options\<lparr>progressTracking := Some (parser, progressCallback)\<rparr>"

text \<open>
  Modelled from the spec: the process runner \<^verbatim>\<open>git(args, path, name, options?)\<close> of
  \<^verbatim>\<open>./core\<close> (sections 4.1 and 4.3). It spawns the binary with the argument list, the
  working directory and the environment of the options; when progress tracking is
  attached, every line the parser produces is handed to the event handler, in the order
  received; exit code 0 returns the result, any other fails with the error.
\<close>

definition git ::
  "('acct, 'env, 'tbl) Externals \<Rightarrow> string list \<Rightarrow> string \<Rightarrow> string
     \<Rightarrow> ('env, 'tbl, 'e) IGitExecutionOptions option
     \<Rightarrow> ('env, 'tbl, 'e) Effect list \<times> (ExecutionError + ExecutionResult)" where
  "git X args path' name' options =
     (let p = spawn X args path' (map_option env options);
          delivered =
            (case options of
               None \<Rightarrow> []
             | Some opts \<Rightarrow>
                 (case progressTracking opts of
                    None \<Rightarrow> []
                  | Some (parser, onLine) \<Rightarrow> concat (map onLine (parserOutput p))))
      in (Spawned args path' name' options # map Callback delivered,
          if exitCode (exit p) = 0 then Inr (exit p) else Inl (ExecutionError (exit p))))"

section \<open>The checkout operations\<close>

text \<open>
  The arrow function that \<^verbatim>\<open>getCheckoutOpts\<close> passes to
  \<^verbatim>\<open>executionOptionsWithProgress\<close> (lines 81 to 94), closed over \<open>progressCallback\<close>,
  \<open>kind\<close>, \<open>title\<close> and \<open>target\<close>.
\<close>

definition onCheckoutProgress ::
  "(ICheckoutProgress \<Rightarrow> 'e) \<Rightarrow> string \<Rightarrow> string \<Rightarrow> string \<Rightarrow> ParsedLine \<Rightarrow> 'e list" where
  "onCheckoutProgress progressCallback kind' title' target' progress =
     (case progress of
        Progress pct txt \<Rightarrow>
          (let description' = txt; v = pct in
           [progressCallback \<lparr>kind = kind', title = title', description = description',
                               value' = v, target = target'\<rparr>])
      | Raw _ \<Rightarrow> [])"

text \<open>
  \<^verbatim>\<open>getCheckoutOpts\<close>. It returns the callback invocations it made together with the
  options. \<^verbatim>\<open>initialDescription ?? title\<close> is the case distinction on the optional
  argument.
\<close>

definition getCheckoutOpts ::
  "('acct, 'env, 'tbl) Externals \<Rightarrow> Repository \<Rightarrow> 'acct option \<Rightarrow> string \<Rightarrow> string
     \<Rightarrow> (ICheckoutProgress \<Rightarrow> 'e) option \<Rightarrow> string option
     \<Rightarrow> ('env, 'tbl, 'e) Effect list \<times> ('env, 'tbl, 'e) IGitExecutionOptions" where
  "getCheckoutOpts X repository account title' target' progressCallback initialDescription =
     (let opts = \<lparr>env = envForRemoteOperation X account
                           (getFallbackUrlForProxyResolve X account repository),
                  expectedErrors = AuthenticationErrors X,
                  trackLFSProgress = None,
                  progressTracking = None\<rparr>
      in case progressCallback of
           None \<Rightarrow> ([], opts)
         | Some cb \<Rightarrow>
             (let kind' = ''checkout'' in
              ([Callback (cb \<lparr>kind = kind', title = title',
                               description = (case initialDescription of
                                                None \<Rightarrow> title' | Some d \<Rightarrow> d),
                               value' = 0, target = target'\<rparr>)],
               executionOptionsWithProgress (opts\<lparr>trackLFSProgress := Some True\<rparr>)
                 CheckoutProgressParser (onCheckoutProgress cb kind' title' target'))))"

text \<open>
  \<^verbatim>\<open>checkoutBranch\<close> and \<^verbatim>\<open>checkoutCommit\<close>: the effects in program order, and the
  value the promise settles with (\<open>Inr True\<close> for \<^verbatim>\<open>return true\<close>, \<open>Inl\<close> the error of
  the awaited \<^verbatim>\<open>git\<close> call).
\<close>

definition checkoutBranch ::
  "('acct, 'env, 'tbl) Externals \<Rightarrow> Repository \<Rightarrow> 'acct option \<Rightarrow> Branch
     \<Rightarrow> (ICheckoutProgress \<Rightarrow> 'e) option
     \<Rightarrow> ('env, 'tbl, 'e) Effect list \<times> (ExecutionError + bool)" where
  "checkoutBranch X repository account branch progressCallback =
     (let (fx, opts) = getCheckoutOpts X repository account
                         (''Checking out branch '' @ name branch) (name branch)
                         progressCallback
                         (Some (''Switching to '' @ (if DARWIN X then ''Branch'' else ''branch'')));
          baseArgs = getCheckoutArgs X progressCallback;
          args = baseArgs @ getBranchCheckoutArgs X branch;
          (fx', r) = git X args (path repository) ''checkoutBranch'' (Some opts)
      in (fx @ fx', case r of Inl e \<Rightarrow> Inl e | Inr _ \<Rightarrow> Inr True))"

definition checkoutCommit ::
  "('acct, 'env, 'tbl) Externals \<Rightarrow> Repository \<Rightarrow> 'acct option \<Rightarrow> CommitOneLine
     \<Rightarrow> (ICheckoutProgress \<Rightarrow> 'e) option
     \<Rightarrow> ('env, 'tbl, 'e) Effect list \<times> (ExecutionError + bool)" where
  "checkoutCommit X repository account commit progressCallback =
     (let title' = ''Checking out '' @ (if DARWIN X then ''Commit'' else ''commit'');
          (fx, opts) = getCheckoutOpts X repository account title' (shortenSHA X (sha commit))
                         progressCallback None;
          baseArgs = getCheckoutArgs X progressCallback;
          args = baseArgs @ [sha commit];
          (fx', r) = git X args (path repository) ''checkoutCommit'' (Some opts)
      in (fx @ fx', case r of Inl e \<Rightarrow> Inl e | Inr _ \<Rightarrow> Inr True))"

text \<open>\<^verbatim>\<open>checkoutPaths\<close>: the promise settles with no value; \<^verbatim>\<open>git\<close> gets no options.\<close>

definition checkoutPaths ::
  "('acct, 'env, 'tbl) Externals \<Rightarrow> Repository \<Rightarrow> string list
     \<Rightarrow> ('env, 'tbl, 'e) Effect list \<times> (ExecutionError + unit)" where
  "checkoutPaths X repository paths =
     (let (fx, r) = git X ([''checkout'', ''HEAD'', ''--''] @ paths) (path repository)
                      ''checkoutPaths'' None
      in (fx, case r of Inl e \<Rightarrow> Inl e | Inr _ \<Rightarrow> Inr ()))"

section \<open>Reading a trace\<close>

text \<open>
  The calls of the process runner in a trace (argument list, working directory,
  operation name and options of each), and the callback invocations in it.
\<close>

fun spawns ::
  "('env, 'tbl, 'e) Effect list
     \<Rightarrow> (string list \<times> string \<times> string \<times> ('env, 'tbl, 'e) IGitExecutionOptions option) list" where
  "spawns [] = []"
| "spawns (Callback _ # fx) = spawns fx"
| "spawns (Spawned a p n opts # fx) = (a, p, n, opts) # spawns fx"

fun callbacks :: "('env, 'tbl, 'e) Effect list \<Rightarrow> 'e list" where
  "callbacks [] = []"
| "callbacks (Callback e # fx) = e # callbacks fx"
| "callbacks (Spawned _ _ _ _ # fx) = callbacks fx"

text \<open>The effects before the first call of the process runner.\<close>

fun beforeSpawn :: "('env, 'tbl, 'e) Effect list \<Rightarrow> ('env, 'tbl, 'e) Effect list" where
  "beforeSpawn [] = []"
| "beforeSpawn (Callback e # fx) = Callback e # beforeSpawn fx"
| "beforeSpawn (Spawned _ _ _ _ # fx) = []"

text \<open>The effects after the first call of the process runner.\<close>

fun afterSpawn :: "('env, 'tbl, 'e) Effect list \<Rightarrow> ('env, 'tbl, 'e) Effect list" where
  "afterSpawn [] = []"
| "afterSpawn (Callback e # fx) = afterSpawn fx"
| "afterSpawn (Spawned _ _ _ _ # fx) = fx"

definition spawnArgs :: "('env, 'tbl, 'e) Effect list \<Rightarrow> string list list" where
  "spawnArgs fx = map (\<lambda>(a, p, n, opts). a) (spawns fx)"

definition spawnOptions ::
  "('env, 'tbl, 'e) Effect list \<Rightarrow> ('env, 'tbl, 'e) IGitExecutionOptions option list" where
  "spawnOptions fx = map (\<lambda>(a, p, n, opts). opts) (spawns fx)"

text \<open>
  The lines of kind "progress" among parsed lines, in order, each as its percentage and
  its text; and their percentages alone.
\<close>

fun progressLines :: "ParsedLine list \<Rightarrow> (real \<times> string) list" where
  "progressLines [] = []"
| "progressLines (Progress pct txt # ls) = (pct, txt) # progressLines ls"
| "progressLines (Raw _ # ls) = progressLines ls"

definition percents :: "ParsedLine list \<Rightarrow> real list" where
  "percents ls = map fst (progressLines ls)"

text \<open>
  A concrete environment to run the operations in: the network arguments unset the
  credential helper, the account is a login name, the environment a list of variable
  bindings, the error table a list of error names, and the git process prints one raw
  line and two progress lines and exits with code 0.
\<close>

definition exampleExternals :: "(string, (string \<times> string) list, string list) Externals" where
  "exampleExternals =
     \<lparr>gitNetworkArguments = [''-c'', ''credential.helper=''],
      enableRecurseSubmodulesFlag = False,
      AuthenticationErrors = [''HTTPSAuthenticationFailed'', ''SSHAuthenticationFailed''],
      envForRemoteOperation = (\<lambda>account url. [(''GIT_TERMINAL_PROMPT'', ''0'')]),
      getFallbackUrlForProxyResolve = (\<lambda>account repository. ''https://github.com''),
      shortenSHA = take 9,
      DARWIN = False,
      spawn = (\<lambda>args cwd e.
        \<lparr>parserOutput = [Raw ''Switched to branch'', Progress (1/4) ''Updating files: 25%'',
                          Progress 1 ''Updating files: 100%''],
         exit = \<lparr>exitCode = 0, stdout = [], stderr = []\<rparr>\<rparr>)\<rparr>"

section \<open>Properties\<close>

lemma callbacks_append: "callbacks (fx @ fx') = callbacks fx @ callbacks fx'"
  by (induction fx rule: callbacks.induct) simp_all

lemma spawns_append: "spawns (fx @ fx') = spawns fx @ spawns fx'"
  by (induction fx rule: spawns.induct) simp_all

lemma spawns_map_Callback: "spawns (map Callback es) = []"
  by (induction es) simp_all

lemma fst_git:
  "fst (git X a p n opts) =
     Spawned a p n opts #
     map Callback
       (case opts of
          None \<Rightarrow> []
        | Some os \<Rightarrow>
            (case progressTracking os of
               None \<Rightarrow> []
             | Some (parser, onLine) \<Rightarrow>
                 concat (map onLine (parserOutput (spawn X a p (map_option env opts))))))"
  by (simp add: git_def Let_def)

lemma spawns_git: "spawns (fst (git X a p n opts)) = [(a, p, n, opts)]"
  by (simp add: fst_git spawns_map_Callback)

lemma fst_getCheckoutOpts:
  "fst (getCheckoutOpts X rp ac t tg cb d) =
     (case cb of
        None \<Rightarrow> []
      | Some f \<Rightarrow>
          [Callback (f \<lparr>kind = ''checkout'', title = t,
                        description = (case d of None \<Rightarrow> t | Some d' \<Rightarrow> d'),
                        value' = 0, target = tg\<rparr>)])"
  by (simp add: getCheckoutOpts_def Let_def split: option.split)

lemma snd_getCheckoutOpts:
  "snd (getCheckoutOpts X rp ac t tg cb d) =
     (case cb of
        None \<Rightarrow>
          \<lparr>env = envForRemoteOperation X ac (getFallbackUrlForProxyResolve X ac rp),
           expectedErrors = AuthenticationErrors X,
           trackLFSProgress = None, progressTracking = None\<rparr>
      | Some f \<Rightarrow>
          executionOptionsWithProgress
            \<lparr>env = envForRemoteOperation X ac (getFallbackUrlForProxyResolve X ac rp),
             expectedErrors = AuthenticationErrors X,
             trackLFSProgress = Some True, progressTracking = None\<rparr>
            CheckoutProgressParser (onCheckoutProgress f ''checkout'' t tg))"
  by (simp add: getCheckoutOpts_def Let_def split: option.split)

lemma spawns_getCheckoutOpts: "spawns (fst (getCheckoutOpts X rp ac t tg cb d)) = []"
  by (simp add: fst_getCheckoutOpts split: option.split)

lemma checkoutBranch_unfold:
  "checkoutBranch X rp ac b cb =
     (let go = getCheckoutOpts X rp ac (''Checking out branch '' @ name b) (name b) cb
                 (Some (''Switching to '' @ (if DARWIN X then ''Branch'' else ''branch'')));
          g = git X (getCheckoutArgs X cb @ getBranchCheckoutArgs X b) (path rp)
                ''checkoutBranch'' (Some (snd go))
      in (fst go @ fst g, case snd g of Inl e \<Rightarrow> Inl e | Inr r \<Rightarrow> Inr True))"
  by (simp add: checkoutBranch_def Let_def split: prod.split)

lemma checkoutCommit_unfold:
  "checkoutCommit X rp ac c cb =
     (let go = getCheckoutOpts X rp ac
                 (''Checking out '' @ (if DARWIN X then ''Commit'' else ''commit''))
                 (shortenSHA X (sha c)) cb None;
          g = git X (getCheckoutArgs X cb @ [sha c]) (path rp)
                ''checkoutCommit'' (Some (snd go))
      in (fst go @ fst g, case snd g of Inl e \<Rightarrow> Inl e | Inr r \<Rightarrow> Inr True))"
  by (simp add: checkoutCommit_def Let_def split: prod.split)

lemma spawns_checkoutBranch:
  "spawns (fst (checkoutBranch X rp ac b cb)) =
     [(getCheckoutArgs X cb @ getBranchCheckoutArgs X b, path rp, ''checkoutBranch'',
       Some (snd (getCheckoutOpts X rp ac (''Checking out branch '' @ name b) (name b) cb
                 (Some (''Switching to '' @ (if DARWIN X then ''Branch'' else ''branch''))))))]"
  by (simp add: checkoutBranch_unfold Let_def spawns_append spawns_git spawns_getCheckoutOpts)

lemma spawns_checkoutCommit:
  "spawns (fst (checkoutCommit X rp ac c cb)) =
     [(getCheckoutArgs X cb @ [sha c], path rp, ''checkoutCommit'',
       Some (snd (getCheckoutOpts X rp ac
                 (''Checking out '' @ (if DARWIN X then ''Commit'' else ''commit''))
                 (shortenSHA X (sha c)) cb None)))]"
  by (simp add: checkoutCommit_unfold Let_def spawns_append spawns_git spawns_getCheckoutOpts)


lemma concat_onCheckoutProgress:
  "concat (map (onCheckoutProgress f k t tg) ls) =
     map (\<lambda>(pct, txt). f \<lparr>kind = k, title = t, description = txt, value' = pct, target = tg\<rparr>)
       (progressLines ls)"
  by (induction ls rule: progressLines.induct) (simp_all add: onCheckoutProgress_def)

lemma callbacks_map_comp: "callbacks (map (Callback \<circ> g) xs) = map g xs"
  by (induction xs) simp_all

lemma callbacks_git_getCheckoutOpts:
  "callbacks (afterSpawn (fst (git X a p n (Some (snd (getCheckoutOpts X rp ac t tg (Some f) d)))))) =
     map (\<lambda>(pct, txt). f \<lparr>kind = ''checkout'', title = t, description = txt, value' = pct, target = tg\<rparr>)
       (progressLines (parserOutput (spawn X a p
          (Some (envForRemoteOperation X ac (getFallbackUrlForProxyResolve X ac rp))))))"
  by (simp add: fst_git snd_getCheckoutOpts executionOptionsWithProgress_def
      callbacks_map_comp concat_onCheckoutProgress)

lemma callbacks_after_checkoutBranch:
  "callbacks (afterSpawn (fst (checkoutBranch X rp ac b (Some f)))) =
     map (\<lambda>(pct, txt). f \<lparr>kind = ''checkout'', title = ''Checking out branch '' @ name b,
                            description = txt, value' = pct, target = name b\<rparr>)
       (progressLines (parserOutput (spawn X
          (getCheckoutArgs X (Some f) @ getBranchCheckoutArgs X b) (path rp)
          (Some (envForRemoteOperation X ac (getFallbackUrlForProxyResolve X ac rp))))))"
  by (simp add: checkoutBranch_unfold Let_def fst_getCheckoutOpts
      callbacks_git_getCheckoutOpts del: afterSpawn.simps(3)) 

lemma callbacks_after_checkoutCommit:
  "callbacks (afterSpawn (fst (checkoutCommit X rp ac c (Some f)))) =
     map (\<lambda>(pct, txt). f \<lparr>kind = ''checkout'',
                            title = ''Checking out '' @ (if DARWIN X then ''Commit'' else ''commit''),
                            description = txt, value' = pct, target = shortenSHA X (sha c)\<rparr>)
       (progressLines (parserOutput (spawn X
          (getCheckoutArgs X (Some f) @ [sha c]) (path rp)
          (Some (envForRemoteOperation X ac (getFallbackUrlForProxyResolve X ac rp))))))"
  by (simp add: checkoutCommit_unfold Let_def fst_getCheckoutOpts
      callbacks_git_getCheckoutOpts del: afterSpawn.simps(3))

lemma values_of_progress_events:
  "map value' (map (\<lambda>(pct, txt). \<lparr>kind = k, title = t, description = txt, value' = pct,
                                    target = tg\<rparr>) ps) = map fst ps"
  by (induction ps) (simp_all add: case_prod_beta)

lemma spawnOptions_checkoutBranch:
  "spawnOptions (fst (checkoutBranch X rp ac b cb)) =
     [Some (snd (getCheckoutOpts X rp ac (''Checking out branch '' @ name b) (name b) cb
              (Some (''Switching to '' @ (if DARWIN X then ''Branch'' else ''branch'')))))]"
  by (simp add: spawnOptions_def spawns_checkoutBranch)

lemma spawnOptions_checkoutCommit:
  "spawnOptions (fst (checkoutCommit X rp ac c cb)) =
     [Some (snd (getCheckoutOpts X rp ac
              (''Checking out '' @ (if DARWIN X then ''Commit'' else ''commit''))
              (shortenSHA X (sha c)) cb None))]"
  by (simp add: spawnOptions_def spawns_checkoutCommit)

lemma getCheckoutOpts_errors_env:
  "expectedErrors (snd (getCheckoutOpts X rp ac t tg cb d)) = AuthenticationErrors X
   \<and> env (snd (getCheckoutOpts X rp ac t tg cb d)) =
       envForRemoteOperation X ac (getFallbackUrlForProxyResolve X ac rp)"
  by (simp add: snd_getCheckoutOpts executionOptionsWithProgress_def split: option.split)

lemma getCheckoutOpts_lfs:
  "trackLFSProgress (snd (getCheckoutOpts X rp ac t tg cb d)) =
     (if cb = None then None else Some True)
   \<and> map_option fst (progressTracking (snd (getCheckoutOpts X rp ac t tg cb d))) =
     (if cb = None then None else Some CheckoutProgressParser)"
  by (simp add: snd_getCheckoutOpts executionOptionsWithProgress_def split: option.split)

lemma fst_checkoutPaths:
  "fst (checkoutPaths X rp paths) =
     fst (git X ([''checkout'', ''HEAD'', ''--''] @ paths) (path rp) ''checkoutPaths'' None)"
  by (simp add: checkoutPaths_def case_prod_beta)

text \<open>
  C1. For every branch \<^verbatim>\<open>getBranchCheckoutArgs\<close> produces one of four lists: for a
  remote-tracking branch the name, \<^verbatim>\<open>-b\<close> and the name without the remote, for a local
  branch the name alone; then \<^verbatim>\<open>--recurse-submodules\<close> exactly when the feature flag is
  on; then, always last, \<^verbatim>\<open>--\<close>. For the remote-tracking branch \<^verbatim>\<open>origin/feature-x\<close>
  with the flag off the list is \<^verbatim>\<open>origin/feature-x -b feature-x --\<close>, and with the flag on
  \<^verbatim>\<open>--recurse-submodules\<close> stands immediately before the final \<^verbatim>\<open>--\<close>.
\<close>

theorem getBranchCheckoutArgs_shape:
  "getBranchCheckoutArgs X b =
     (if type b = Remote then [name b, ''-b'', nameWithoutRemote b] else [name b])
     @ (if enableRecurseSubmodulesFlag X then [''--recurse-submodules''] else [])
     @ [''--'']
   \<and> last (getBranchCheckoutArgs X b) = ''--''
   \<and> getBranchCheckoutArgs (X\<lparr>enableRecurseSubmodulesFlag := False\<rparr>)
         \<lparr>name = ''origin/feature-x'', type = Remote, nameWithoutRemote = ''feature-x''\<rparr>
       = [''origin/feature-x'', ''-b'', ''feature-x'', ''--'']
   \<and> getBranchCheckoutArgs (X\<lparr>enableRecurseSubmodulesFlag := True\<rparr>)
         \<lparr>name = ''origin/feature-x'', type = Remote, nameWithoutRemote = ''feature-x''\<rparr>
       = [''origin/feature-x'', ''-b'', ''feature-x'', ''--recurse-submodules'', ''--'']"
  by (simp add: getBranchCheckoutArgs_def)



text \<open>
  C3. With a progress callback supplied, \<^verbatim>\<open>getCheckoutOpts\<close> invokes it exactly once, with
  kind \<^verbatim>\<open>checkout\<close>, the caller's title and target, the initial description (the title
  when none is given) and value 0. In \<^verbatim>\<open>checkoutBranch\<close> and \<^verbatim>\<open>checkoutCommit\<close> this
  one invocation is all that happens before the call of the process runner, which is
  made exactly once: no progress event comes before the initial one.
\<close>

theorem initial_progress_before_spawn:
  "fst (getCheckoutOpts X rp ac t tg (Some f) d) =
     [Callback (f \<lparr>kind = ''checkout'', title = t,
                   description = (case d of None \<Rightarrow> t | Some d' \<Rightarrow> d'),
                   value' = 0, target = tg\<rparr>)]
   \<and> beforeSpawn (fst (checkoutBranch X rp ac b (Some f))) =
       [Callback (f \<lparr>kind = ''checkout'', title = ''Checking out branch '' @ name b,
                     description = ''Switching to '' @ (if DARWIN X then ''Branch'' else ''branch''),
                     value' = 0, target = name b\<rparr>)]
   \<and> length (spawns (fst (checkoutBranch X rp ac b (Some f)))) = 1
   \<and> beforeSpawn (fst (checkoutCommit X rp ac c (Some f))) =
       [Callback (f \<lparr>kind = ''checkout'',
                     title = ''Checking out '' @ (if DARWIN X then ''Commit'' else ''commit''),
                     description = ''Checking out '' @ (if DARWIN X then ''Commit'' else ''commit''),
                     value' = 0, target = shortenSHA X (sha c)\<rparr>)]
   \<and> length (spawns (fst (checkoutCommit X rp ac c (Some f)))) = 1"
proof -
  have opts: "fst (getCheckoutOpts X rp ac t tg (Some f) d) =
     [Callback (f \<lparr>kind = ''checkout'', title = t,
                   description = (case d of None \<Rightarrow> t | Some d' \<Rightarrow> d'),
                   value' = 0, target = tg\<rparr>)]" for t tg d
    by (simp add: fst_getCheckoutOpts)
  have branch: "beforeSpawn (fst (checkoutBranch X rp ac b (Some f))) =
       [Callback (f \<lparr>kind = ''checkout'', title = ''Checking out branch '' @ name b,
                     description = ''Switching to '' @ (if DARWIN X then ''Branch'' else ''branch''),
                     value' = 0, target = name b\<rparr>)]"
    by (simp add: checkoutBranch_unfold Let_def opts fst_git)
  have commit: "beforeSpawn (fst (checkoutCommit X rp ac c (Some f))) =
       [Callback (f \<lparr>kind = ''checkout'',
                     title = ''Checking out '' @ (if DARWIN X then ''Commit'' else ''commit''),
                     description = ''Checking out '' @ (if DARWIN X then ''Commit'' else ''commit''),
                     value' = 0, target = shortenSHA X (sha c)\<rparr>)]"
    by (simp add: checkoutCommit_unfold Let_def opts fst_git)
  show ?thesis
    using opts branch commit
    by (simp add: spawns_checkoutBranch spawns_checkoutCommit)
qed

theorem initial_progress_before_spawn_witness:
  "beforeSpawn (fst (checkoutBranch exampleExternals \<lparr>path = ''/repo''\<rparr> None
       \<lparr>name = ''origin/feature-x'', type = Remote, nameWithoutRemote = ''feature-x''\<rparr>
       (Some (\<lambda>e. e)))) =
     [Callback \<lparr>kind = ''checkout'', title = ''Checking out branch origin/feature-x'',
                description = ''Switching to branch'', value' = 0,
                target = ''origin/feature-x''\<rparr>]
   \<and> beforeSpawn (fst (checkoutCommit exampleExternals \<lparr>path = ''/repo''\<rparr> None
       \<lparr>sha = ''abc123def4567'', summary = ''fix''\<rparr> (Some (\<lambda>e. e)))) =
     [Callback \<lparr>kind = ''checkout'', title = ''Checking out commit'',
                description = ''Checking out commit'', value' = 0,
                target = ''abc123def''\<rparr>]"
  using initial_progress_before_spawn [of exampleExternals "\<lparr>path = ''/repo''\<rparr>" None
      _ _ "\<lambda>e. e" _
      "\<lparr>name = ''origin/feature-x'', type = Remote, nameWithoutRemote = ''feature-x''\<rparr>"
      "\<lparr>sha = ''abc123def4567'', summary = ''fix''\<rparr>"]
  by (simp add: exampleExternals_def)

text \<open>
  C4. The event handler of a progress-tracked checkout invokes the caller's callback
  exactly once for a parsed line of kind "progress", with the line's percentage as value
  and its text as description, and the invocation's kind, title and target; for any
  other line it invokes nothing. So the callback invocations made while git runs, in
  \<^verbatim>\<open>checkoutBranch\<close> and in \<^verbatim>\<open>checkoutCommit\<close>, are one per progress line of the
  parser's output, in the parser's order, tagged \<^verbatim>\<open>checkout\<close> with the constant title
  and target.
\<close>

theorem progress_lines_to_callbacks:
  "onCheckoutProgress f k t tg (Progress pct txt) =
     [f \<lparr>kind = k, title = t, description = txt, value' = pct, target = tg\<rparr>]
   \<and> onCheckoutProgress f k t tg (Raw s) = []
   \<and> callbacks (afterSpawn (fst (checkoutBranch X rp ac b (Some f)))) =
       map (\<lambda>(pct, txt). f \<lparr>kind = ''checkout'', title = ''Checking out branch '' @ name b,
                              description = txt, value' = pct, target = name b\<rparr>)
         (progressLines (parserOutput (spawn X
            (getCheckoutArgs X (Some f) @ getBranchCheckoutArgs X b) (path rp)
            (Some (envForRemoteOperation X ac (getFallbackUrlForProxyResolve X ac rp))))))
   \<and> callbacks (afterSpawn (fst (checkoutCommit X rp ac c (Some f)))) =
       map (\<lambda>(pct, txt). f \<lparr>kind = ''checkout'',
                              title = ''Checking out '' @ (if DARWIN X then ''Commit'' else ''commit''),
                              description = txt, value' = pct, target = shortenSHA X (sha c)\<rparr>)
         (progressLines (parserOutput (spawn X
            (getCheckoutArgs X (Some f) @ [sha c]) (path rp)
            (Some (envForRemoteOperation X ac (getFallbackUrlForProxyResolve X ac rp))))))"
proof -
  have "onCheckoutProgress f k t tg (Progress pct txt) =
     [f \<lparr>kind = k, title = t, description = txt, value' = pct, target = tg\<rparr>]"
    by (simp add: onCheckoutProgress_def)
  moreover have "onCheckoutProgress f k t tg (Raw s) = []"
    by (simp add: onCheckoutProgress_def)
  ultimately show ?thesis
    using callbacks_after_checkoutBranch [of X rp ac b f]
      callbacks_after_checkoutCommit [of X rp ac c f]
    by simp
qed

theorem progress_lines_to_callbacks_witness:
  "callbacks (afterSpawn (fst (checkoutBranch exampleExternals \<lparr>path = ''/repo''\<rparr> None
       \<lparr>name = ''main'', type = Local, nameWithoutRemote = ''main''\<rparr> (Some (\<lambda>e. e))))) =
     [\<lparr>kind = ''checkout'', title = ''Checking out branch main'',
       description = ''Updating files: 25%'', value' = 1/4, target = ''main''\<rparr>,
      \<lparr>kind = ''checkout'', title = ''Checking out branch main'',
       description = ''Updating files: 100%'', value' = 1, target = ''main''\<rparr>]"
  using progress_lines_to_callbacks [of "\<lambda>e. e" _ _ _ _ _ _ exampleExternals
      "\<lparr>path = ''/repo''\<rparr>" None
      "\<lparr>name = ''main'', type = Local, nameWithoutRemote = ''main''\<rparr>"]
  by (simp add: exampleExternals_def)

text \<open>
  C5. When the percentages of the progress lines of the parser's output are increasing
  (weakly: each at least its predecessor), the values of the progress events that the
  checkout progress adapter delivers to the callback while git runs are non-decreasing;
  when moreover no percentage is negative, so is the whole sequence that starts with the
  initial event of value 0. The callback observed here is the one that records its
  argument.
\<close>

theorem progress_values_nondecreasing:
  assumes "sorted (percents (parserOutput (spawn X a p
             (Some (envForRemoteOperation X ac (getFallbackUrlForProxyResolve X ac rp))))))"
  shows "sorted (map value' (callbacks (afterSpawn (fst (git X a p n
           (Some (snd (getCheckoutOpts X rp ac t tg (Some (\<lambda>e. e)) d))))))))
         \<and> ((\<forall>q \<in> set (percents (parserOutput (spawn X a p
                (Some (envForRemoteOperation X ac (getFallbackUrlForProxyResolve X ac rp)))))). 0 \<le> q)
            \<longrightarrow> sorted (map value' (callbacks
                  (fst (getCheckoutOpts X rp ac t tg (Some (\<lambda>e. e)) d)
                   @ fst (git X a p n
                       (Some (snd (getCheckoutOpts X rp ac t tg (Some (\<lambda>e. e)) d))))))))"
proof -
  let ?ps = "progressLines (parserOutput (spawn X a p
             (Some (envForRemoteOperation X ac (getFallbackUrlForProxyResolve X ac rp)))))"
  let ?g = "fst (git X a p n (Some (snd (getCheckoutOpts X rp ac t tg (Some (\<lambda>e. e)) d))))"
  have during: "map value' (callbacks (afterSpawn ?g)) = map fst ?ps"
    by (simp only: callbacks_git_getCheckoutOpts values_of_progress_events)
  have same: "callbacks ?g = callbacks (afterSpawn ?g)"
    by (simp add: fst_git)
  have sorted_ps: "sorted (map fst ?ps)"
    using assms by (simp add: percents_def)
  have first: "sorted (map value' (callbacks (afterSpawn ?g)))"
    using during sorted_ps by simp
  have whole: "map value' (callbacks (fst (getCheckoutOpts X rp ac t tg (Some (\<lambda>e. e)) d) @ ?g))
                 = 0 # map fst ?ps"
    using during same by (simp add: callbacks_append fst_getCheckoutOpts)
  show ?thesis
    using first whole sorted_ps by (simp add: percents_def)
qed

theorem progress_values_nondecreasing_witness:
  "sorted [1/4, (1::real)]
   \<and> map value' (callbacks (afterSpawn (fst (git exampleExternals [''checkout''] ''/repo'' ''checkoutBranch''
        (Some (snd (getCheckoutOpts exampleExternals \<lparr>path = ''/repo''\<rparr> None ''t'' ''main''
           (Some (\<lambda>e. e)) None))))))) = [1/4, 1]
   \<and> sorted (map value' (callbacks
        (fst (getCheckoutOpts exampleExternals \<lparr>path = ''/repo''\<rparr> None ''t'' ''main''
           (Some (\<lambda>e. e)) None)
         @ fst (git exampleExternals [''checkout''] ''/repo'' ''checkoutBranch''
        (Some (snd (getCheckoutOpts exampleExternals \<lparr>path = ''/repo''\<rparr> None ''t'' ''main''
           (Some (\<lambda>e. e)) None)))))))"
  using progress_values_nondecreasing [of exampleExternals "[''checkout'']" "''/repo''" None
      "\<lparr>path = ''/repo''\<rparr>" "''checkoutBranch''" "''t''" "''main''" None]
    callbacks_git_getCheckoutOpts [of exampleExternals "[''checkout'']" "''/repo''"
      "''checkoutBranch''" "\<lparr>path = ''/repo''\<rparr>" None "''t''" "''main''" "\<lambda>e. e" None]
  by (simp add: exampleExternals_def percents_def)


text \<open>
  C7. In every invocation of \<^verbatim>\<open>checkoutBranch\<close> and of \<^verbatim>\<open>checkoutCommit\<close>, with or without
  a progress callback, the options passed to git have the table \<^verbatim>\<open>AuthenticationErrors\<close>
  as \<^verbatim>\<open>expectedErrors\<close> and, as \<^verbatim>\<open>env\<close>, the environment that \<^verbatim>\<open>envForRemoteOperation\<close>
  builds from the account and the proxy fallback URL of account and repository. The
  options of \<^verbatim>\<open>getCheckoutOpts\<close> are that object itself without a callback, and with one
  what \<^verbatim>\<open>executionOptionsWithProgress\<close> makes of it.
\<close>

theorem checkout_options_errors_env:
  "map (map_option (\<lambda>opts. (expectedErrors opts, env opts)))
       (spawnOptions (fst (checkoutBranch X rp ac b cb))) =
     [Some (AuthenticationErrors X,
            envForRemoteOperation X ac (getFallbackUrlForProxyResolve X ac rp))]
   \<and> map (map_option (\<lambda>opts. (expectedErrors opts, env opts)))
       (spawnOptions (fst (checkoutCommit X rp ac c cb))) =
     [Some (AuthenticationErrors X,
            envForRemoteOperation X ac (getFallbackUrlForProxyResolve X ac rp))]
   \<and> snd (getCheckoutOpts X rp ac t tg cb d) =
       (let opts = \<lparr>env = envForRemoteOperation X ac (getFallbackUrlForProxyResolve X ac rp),
                    expectedErrors = AuthenticationErrors X,
                    trackLFSProgress = None, progressTracking = None\<rparr>
        in case cb of
             None \<Rightarrow> opts
           | Some f \<Rightarrow>
               executionOptionsWithProgress (opts\<lparr>trackLFSProgress := Some True\<rparr>)
                 CheckoutProgressParser (onCheckoutProgress f ''checkout'' t tg))"
proof -
  have "snd (getCheckoutOpts X rp ac t tg cb d) =
       (let opts = \<lparr>env = envForRemoteOperation X ac (getFallbackUrlForProxyResolve X ac rp),
                    expectedErrors = AuthenticationErrors X,
                    trackLFSProgress = None, progressTracking = None\<rparr>
        in case cb of
             None \<Rightarrow> opts
           | Some f \<Rightarrow>
               executionOptionsWithProgress (opts\<lparr>trackLFSProgress := Some True\<rparr>)
                 CheckoutProgressParser (onCheckoutProgress f ''checkout'' t tg))"
    by (simp add: snd_getCheckoutOpts Let_def split: option.split)
  then show ?thesis
    by (simp only: spawnOptions_checkoutBranch spawnOptions_checkoutCommit
        getCheckoutOpts_errors_env list.map option.map simp_thms)
qed

text \<open>
  C8. For every list of paths \<^verbatim>\<open>checkoutPaths\<close> does one thing: it calls git with exactly
  the arguments \<^verbatim>\<open>checkout HEAD --\<close> followed by the paths in order, in the repository's
  path, under the name \<^verbatim>\<open>checkoutPaths\<close> and with no options at all (so no progress
  tracking and no error table); the network arguments are not part of the list and no
  callback is invoked.
\<close>

theorem checkoutPaths_call:
  "fst (checkoutPaths X rp paths) =
     [Spawned (''checkout'' # ''HEAD'' # ''--'' # paths) (path rp) ''checkoutPaths'' None]
   \<and> spawnArgs (fst (checkoutPaths X rp paths)) = [[''checkout'', ''HEAD'', ''--''] @ paths]
   \<and> spawnOptions (fst (checkoutPaths X rp paths)) = [None]
   \<and> callbacks (fst (checkoutPaths X rp paths)) = []"
  by (simp add: fst_checkoutPaths fst_git spawnArgs_def spawnOptions_def)

text \<open>
  C9. \<^verbatim>\<open>checkoutBranch\<close> and \<^verbatim>\<open>checkoutCommit\<close> settle as their call of git does:
  with its error when it fails, and with the value \<open>True\<close> whenever it returns, whatever
  the repository, account, target and callback; they never resolve with another value.
\<close>

theorem checkout_resolves_true:
  "snd (checkoutBranch X rp ac b cb) =
     (case snd (git X (getCheckoutArgs X cb @ getBranchCheckoutArgs X b) (path rp)
                  ''checkoutBranch''
                  (Some (snd (getCheckoutOpts X rp ac (''Checking out branch '' @ name b)
                     (name b) cb
                     (Some (''Switching to '' @ (if DARWIN X then ''Branch'' else ''branch'')))))))
      of Inl e \<Rightarrow> Inl e | Inr r \<Rightarrow> Inr True)
   \<and> snd (checkoutCommit X rp ac c cb) =
     (case snd (git X (getCheckoutArgs X cb @ [sha c]) (path rp) ''checkoutCommit''
                  (Some (snd (getCheckoutOpts X rp ac
                     (''Checking out '' @ (if DARWIN X then ''Commit'' else ''commit''))
                     (shortenSHA X (sha c)) cb None))))
      of Inl e \<Rightarrow> Inl e | Inr r \<Rightarrow> Inr True)
   \<and> snd (checkoutBranch X rp ac b cb) \<noteq> Inr False
   \<and> snd (checkoutCommit X rp ac c cb) \<noteq> Inr False"
  by (simp add: checkoutBranch_unfold checkoutCommit_unfold Let_def split: sum.split)

text \<open>
  C10. The options that \<^verbatim>\<open>checkoutBranch\<close> and \<^verbatim>\<open>checkoutCommit\<close> pass to git have
  \<^verbatim>\<open>trackLFSProgress\<close> set to true and the checkout progress parser attached when a
  progress callback is supplied, and neither the field nor a parser when none is. With a
  callback they are what \<^verbatim>\<open>executionOptionsWithProgress\<close> returns for the base options
  with \<^verbatim>\<open>trackLFSProgress: true\<close>, the parser and the event handler.
\<close>

theorem checkout_options_lfs:
  "map (map_option (\<lambda>opts. (trackLFSProgress opts, map_option fst (progressTracking opts))))
       (spawnOptions (fst (checkoutBranch X rp ac b cb))) =
     [Some (if cb = None then (None, None) else (Some True, Some CheckoutProgressParser))]
   \<and> map (map_option (\<lambda>opts. (trackLFSProgress opts, map_option fst (progressTracking opts))))
       (spawnOptions (fst (checkoutCommit X rp ac c cb))) =
     [Some (if cb = None then (None, None) else (Some True, Some CheckoutProgressParser))]
   \<and> spawnOptions (fst (checkoutBranch X rp ac b (Some f))) =
     [Some (executionOptionsWithProgress
        \<lparr>env = envForRemoteOperation X ac (getFallbackUrlForProxyResolve X ac rp),
         expectedErrors = AuthenticationErrors X,
         trackLFSProgress = Some True, progressTracking = None\<rparr>
        CheckoutProgressParser
        (onCheckoutProgress f ''checkout'' (''Checking out branch '' @ name b) (name b)))]
   \<and> spawnOptions (fst (checkoutCommit X rp ac c (Some f))) =
     [Some (executionOptionsWithProgress
        \<lparr>env = envForRemoteOperation X ac (getFallbackUrlForProxyResolve X ac rp),
         expectedErrors = AuthenticationErrors X,
         trackLFSProgress = Some True, progressTracking = None\<rparr>
        CheckoutProgressParser
        (onCheckoutProgress f ''checkout''
           (''Checking out '' @ (if DARWIN X then ''Commit'' else ''commit''))
           (shortenSHA X (sha c))))]"
proof -
  have a: "map (map_option (\<lambda>opts. (trackLFSProgress opts, map_option fst (progressTracking opts))))
       (spawnOptions (fst (checkoutBranch X rp ac b cb))) =
     [Some (if cb = None then (None, None) else (Some True, Some CheckoutProgressParser))]"
    by (simp add: spawnOptions_checkoutBranch getCheckoutOpts_lfs)
  have b: "map (map_option (\<lambda>opts. (trackLFSProgress opts, map_option fst (progressTracking opts))))
       (spawnOptions (fst (checkoutCommit X rp ac c cb))) =
     [Some (if cb = None then (None, None) else (Some True, Some CheckoutProgressParser))]"
    by (simp add: spawnOptions_checkoutCommit getCheckoutOpts_lfs)
  show ?thesis
    using a b
    by (simp add: spawnOptions_checkoutBranch spawnOptions_checkoutCommit snd_getCheckoutOpts)
qed

end
